theory Spec2Isabelle
  imports Complex_Main
begin

section \<open>The float64 values of the detector\<close>

text \<open>
  Every number the detector handles is a Go \<open>float64\<close>. The model keeps the four kinds
  of value that decide the behaviour of the code: a finite number, the two infinities and
  NaN. The special values follow IEEE 754 (a division by zero gives an infinity or NaN, an
  ordered comparison with NaN is false). Arithmetic on finite numbers is exact: rounding,
  overflow to an infinity and the sign of zero are not modelled. The detector only looks
  at the sign of zero through \<open>math.Abs\<close> and comparisons, which ignore it.
\<close>

datatype float64 = Fin real | PInf | NInf | NaN

fun f64_neg :: "float64 \<Rightarrow> float64" where
  "f64_neg (Fin x) = Fin (- x)"
| "f64_neg PInf = NInf"
| "f64_neg NInf = PInf"
| "f64_neg NaN = NaN"

text \<open>\<open>a + b\<close>: NaN is absorbing, the sum of opposite infinities is NaN.\<close>

fun f64_add :: "float64 \<Rightarrow> float64 \<Rightarrow> float64" where
  "f64_add (Fin x) (Fin y) = Fin (x + y)"
| "f64_add NaN b = NaN"
| "f64_add a NaN = NaN"
| "f64_add PInf NInf = NaN"
| "f64_add NInf PInf = NaN"
| "f64_add PInf b = PInf"
| "f64_add NInf b = NInf"
| "f64_add (Fin x) PInf = PInf"
| "f64_add (Fin x) NInf = NInf"

definition f64_sub :: "float64 \<Rightarrow> float64 \<Rightarrow> float64" where
  "f64_sub a b = f64_add a (f64_neg b)"

text \<open>An infinity of the sign of \<open>x\<close> (for a nonzero \<open>x\<close>).\<close>

definition inf_of_sign :: "real \<Rightarrow> float64" where
  "inf_of_sign x = (if x < 0 then NInf else PInf)"

text \<open>\<open>a * b\<close>: an infinity times zero is NaN.\<close>

fun f64_mul :: "float64 \<Rightarrow> float64 \<Rightarrow> float64" where
  "f64_mul (Fin x) (Fin y) = Fin (x * y)"
| "f64_mul NaN b = NaN"
| "f64_mul a NaN = NaN"
| "f64_mul PInf (Fin y) = (if y = 0 then NaN else inf_of_sign y)"
| "f64_mul NInf (Fin y) = (if y = 0 then NaN else inf_of_sign (- y))"
| "f64_mul (Fin x) PInf = (if x = 0 then NaN else inf_of_sign x)"
| "f64_mul (Fin x) NInf = (if x = 0 then NaN else inf_of_sign (- x))"
| "f64_mul PInf PInf = PInf"
| "f64_mul NInf NInf = PInf"
| "f64_mul PInf NInf = NInf"
| "f64_mul NInf PInf = NInf"

text \<open>
  \<open>a / b\<close>: \<open>0 / 0\<close> and the quotient of two infinities are NaN, a nonzero number over
  zero is an infinity, a finite number over an infinity is zero.
\<close>

fun f64_div :: "float64 \<Rightarrow> float64 \<Rightarrow> float64" where
  "f64_div (Fin x) (Fin y) =
     (if y = 0 then (if x = 0 then NaN else inf_of_sign x) else Fin (x / y))"
| "f64_div NaN b = NaN"
| "f64_div a NaN = NaN"
| "f64_div (Fin x) PInf = Fin 0"
| "f64_div (Fin x) NInf = Fin 0"
| "f64_div PInf (Fin y) = inf_of_sign y"
| "f64_div NInf (Fin y) = f64_neg (inf_of_sign y)"
| "f64_div PInf b = NaN"
| "f64_div NInf b = NaN"

text \<open>\<open>math.Sqrt\<close>: NaN for a negative argument, \<open>+Inf\<close> for \<open>+Inf\<close>.\<close>

fun f64_sqrt :: "float64 \<Rightarrow> float64" where
  "f64_sqrt (Fin x) = (if x < 0 then NaN else Fin (sqrt x))"
| "f64_sqrt PInf = PInf"
| "f64_sqrt NInf = NaN"
| "f64_sqrt NaN = NaN"

text \<open>\<open>math.Abs\<close>.\<close>

fun f64_abs :: "float64 \<Rightarrow> float64" where
  "f64_abs (Fin x) = Fin \<bar>x\<bar>"
| "f64_abs PInf = PInf"
| "f64_abs NInf = PInf"
| "f64_abs NaN = NaN"

text \<open>The comparisons \<open>a > b\<close>, \<open>a == b\<close> and \<open>a >= b\<close> of Go: false as soon as one side is NaN.\<close>

fun f64_gt :: "float64 \<Rightarrow> float64 \<Rightarrow> bool" where
  "f64_gt (Fin x) (Fin y) = (y < x)"
| "f64_gt NaN b = False"
| "f64_gt a NaN = False"
| "f64_gt PInf PInf = False"
| "f64_gt PInf b = True"
| "f64_gt NInf b = False"
| "f64_gt (Fin x) PInf = False"
| "f64_gt (Fin x) NInf = True"

fun f64_eq :: "float64 \<Rightarrow> float64 \<Rightarrow> bool" where
  "f64_eq (Fin x) (Fin y) = (x = y)"
| "f64_eq PInf PInf = True"
| "f64_eq NInf NInf = True"
| "f64_eq a b = False"

definition f64_ge :: "float64 \<Rightarrow> float64 \<Rightarrow> bool" where
  "f64_ge a b = (f64_gt a b \<or> f64_eq a b)"

section \<open>The data of the detector\<close>

text \<open>
  A point of a time series, reduced to what the detector reads of it: the number given by
  \<open>point.Value.GetDoubleValue()\<close> and the end of its interval
  (\<open>point.Interval.EndTime\<close>, seconds and nanoseconds).
\<close>

record Timestamp =
  Seconds :: int
  Nanos :: int

record Point =
  DoubleValue :: float64
  EndTime :: Timestamp

text \<open>A \<open>monitoringpb.TimeSeries\<close>: \<open>metric.Metric.Type\<close> and \<open>metric.Points\<close>.\<close>

record TimeSeries =
  MetricType :: string
  Points :: "Point list"

record Anomaly =
  MetricName :: string
  Value :: float64
  Timestamp :: Timestamp
  Message :: string

record MetricStats =
  mean :: float64
  stddev :: float64
  currentMean :: float64
  currentStdDev :: float64

text \<open>
  A Go map is \<open>nil\<close> until \<open>make\<close> allocates it: \<open>None\<close> is the nil map, \<open>Some m\<close> an
  allocated one. Reading a nil map finds nothing; assigning to one panics.
\<close>

type_synonym 'v gomap = "(string \<rightharpoonup> 'v) option"

record SimpleAnomalyDetector =
  metricsStats :: "MetricStats gomap"
  initialised :: bool
  zScores :: "float64 gomap"

text \<open>\<open>&SimpleAnomalyDetector{}\<close>: every field has its zero value.\<close>

definition new_detector :: SimpleAnomalyDetector where
  "new_detector = \<lparr>metricsStats = None, initialised = False, zScores = None\<rparr>"

text \<open>The zero value of \<open>MetricStats\<close>.\<close>

definition zero_stats :: MetricStats where
  "zero_stats = \<lparr>mean = Fin 0, stddev = Fin 0, currentMean = Fin 0, currentStdDev = Fin 0\<rparr>"

text \<open>\<open>stats, ok := m[k]\<close>: \<open>None\<close> when \<open>ok\<close> is false.\<close>

definition map_lookup :: "MetricStats gomap \<Rightarrow> string \<Rightarrow> MetricStats option" where
  "map_lookup m k = (case m of None \<Rightarrow> None | Some f \<Rightarrow> f k)"

text \<open>\<open>stats := m[k]\<close>: the zero value when the key is missing.\<close>

definition map_read :: "MetricStats gomap \<Rightarrow> string \<Rightarrow> MetricStats" where
  "map_read m k = (case map_lookup m k of None \<Rightarrow> zero_stats | Some st \<Rightarrow> st)"

datatype error = BaselineNotInitialised

datatype panic = AssignmentToEntryInNilMap

text \<open>
  The two formatting functions of the Go library that the detector calls:
  \<open>time.Time.String\<close> (through \<open>%s\<close>) and the \<open>%.2f\<close> rendering of a \<open>float64\<close>.
  They are parameters of the model.
\<close>

record GoFmt =
  TimeString :: "Timestamp \<Rightarrow> string"
  FormatF2 :: "float64 \<Rightarrow> string"

section \<open>GetBaseline\<close>

text \<open>
  The loop over the metrics; \<open>stats\<close> is the map under construction. The two inner loops
  over the points are folds. Logging is not modelled.
\<close>

fun GetBaseline_loop :: "(string \<rightharpoonup> MetricStats) \<Rightarrow> TimeSeries list \<Rightarrow> (string \<rightharpoonup> MetricStats)" where
  "GetBaseline_loop stats [] = stats"
| "GetBaseline_loop stats (metric # rest) =
     (let metricType = MetricType metric;
          (sum, count) =
             fold (\<lambda>point (sum, count). (f64_add sum (DoubleValue point), f64_add count (Fin 1)))
               (Points metric) (Fin 0, Fin 0)
      in if f64_eq count (Fin 0) then GetBaseline_loop stats rest
         else
           let mean = f64_div sum count;
               sumOfSquares =
                 fold (\<lambda>point sumOfSquares.
                         let deviation = f64_sub (DoubleValue point) mean
                         in f64_add sumOfSquares (f64_mul deviation deviation))
                   (Points metric) (Fin 0);
               stddev = f64_sqrt (f64_div sumOfSquares count)
           in GetBaseline_loop
                (stats(metricType \<mapsto>
                   \<lparr>mean = mean, stddev = stddev, currentMean = Fin 0, currentStdDev = Fin 0\<rparr>))
                rest)"

definition GetBaseline :: "SimpleAnomalyDetector \<Rightarrow> TimeSeries list \<Rightarrow> SimpleAnomalyDetector" where
  "GetBaseline d metrics =
     d\<lparr>metricsStats := Some (GetBaseline_loop Map.empty metrics), initialised := True\<rparr>"

section \<open>DetectAnomalies\<close>

text \<open>The loop over the points of one metric: the anomalies so far and the z-score map.\<close>

fun DetectAnomalies_points ::
  "GoFmt \<Rightarrow> string \<Rightarrow> MetricStats \<Rightarrow> float64 \<Rightarrow> Point list \<Rightarrow>
   Anomaly list \<times> (string \<rightharpoonup> float64) \<Rightarrow> Anomaly list \<times> (string \<rightharpoonup> float64)" where
  "DetectAnomalies_points L metricType stats zScoreThreshold [] acc = acc"
| "DetectAnomalies_points L metricType stats zScoreThreshold (point # rest) (anomalies, zs) =
     (let value = DoubleValue point;
          zScore = f64_div (f64_sub value (mean stats)) (stddev stats);
          zs' = zs(metricType @ '' at '' @ TimeString L (EndTime point) \<mapsto> zScore)
      in if f64_gt (f64_abs zScore) zScoreThreshold
         then DetectAnomalies_points L metricType stats zScoreThreshold rest
                (anomalies @
                   [\<lparr>MetricName = metricType, Value = value, Timestamp = EndTime point,
                     Message = ''Value deviates significantly from the mean (Z-score: ''
                                 @ FormatF2 L zScore @ '')''\<rparr>],
                 zs')
         else DetectAnomalies_points L metricType stats zScoreThreshold rest (anomalies, zs'))"

text \<open>The loop over the metrics; a metric without baseline statistics is skipped.\<close>

fun DetectAnomalies_loop ::
  "GoFmt \<Rightarrow> MetricStats gomap \<Rightarrow> float64 \<Rightarrow> TimeSeries list \<Rightarrow>
   Anomaly list \<times> (string \<rightharpoonup> float64) \<Rightarrow> Anomaly list \<times> (string \<rightharpoonup> float64)" where
  "DetectAnomalies_loop L ms zScoreThreshold [] acc = acc"
| "DetectAnomalies_loop L ms zScoreThreshold (metric # rest) acc =
     (let metricType = MetricType metric
      in case map_lookup ms metricType of
           None \<Rightarrow> DetectAnomalies_loop L ms zScoreThreshold rest acc
         | Some stats \<Rightarrow>
             DetectAnomalies_loop L ms zScoreThreshold rest
               (DetectAnomalies_points L metricType stats zScoreThreshold (Points metric) acc))"

text \<open>
  The result is the pair returned by the Go function (the anomalies and the error, the
  nil slice being the empty list) together with the detector after the call.
\<close>

definition DetectAnomalies ::
  "GoFmt \<Rightarrow> SimpleAnomalyDetector \<Rightarrow> TimeSeries list \<Rightarrow> float64 \<Rightarrow>
   (Anomaly list \<times> error option) \<times> SimpleAnomalyDetector" where
  "DetectAnomalies L d metrics zScoreThreshold =
     (if \<not> initialised d then (([], Some BaselineNotInitialised), d)
      else
        let (anomalies, zs) =
              DetectAnomalies_loop L (metricsStats d) zScoreThreshold metrics ([], Map.empty)
        in ((anomalies, None), d\<lparr>zScores := Some zs\<rparr>))"

section \<open>UpdateCurrentStats\<close>

text \<open>
  The loop over the metrics. The assignment \<open>d.metricsStats[metricType] = stats\<close> panics
  when the map is nil, which ends the program.
\<close>

fun UpdateCurrentStats_loop :: "MetricStats gomap \<Rightarrow> TimeSeries list \<Rightarrow> panic + MetricStats gomap" where
  "UpdateCurrentStats_loop ms [] = Inr ms"
| "UpdateCurrentStats_loop ms (metric # rest) =
     (let metricType = MetricType metric;
          (sum, count) =
             fold (\<lambda>point (sum, count). (f64_add sum (DoubleValue point), f64_add count (Fin 1)))
               (Points metric) (Fin 0, Fin 0)
      in if f64_eq count (Fin 0) then UpdateCurrentStats_loop ms rest
         else
           let currentMean' = f64_div sum count;
               sumOfSquares =
                 fold (\<lambda>point sumOfSquares.
                         let deviation = f64_sub (DoubleValue point) currentMean'
                         in f64_add sumOfSquares (f64_mul deviation deviation))
                   (Points metric) (Fin 0);
               currentStdDev' = f64_sqrt (f64_div sumOfSquares count);
               stats = map_read ms metricType
           in case ms of
                None \<Rightarrow> Inl AssignmentToEntryInNilMap
              | Some m \<Rightarrow>
                  UpdateCurrentStats_loop
                    (Some (m(metricType \<mapsto>
                       stats\<lparr>currentMean := currentMean', currentStdDev := currentStdDev'\<rparr>)))
                    rest)"

definition UpdateCurrentStats :: "SimpleAnomalyDetector \<Rightarrow> TimeSeries list \<Rightarrow> panic + SimpleAnomalyDetector" where
  "UpdateCurrentStats d metrics =
     (case UpdateCurrentStats_loop (metricsStats d) metrics of
        Inl p \<Rightarrow> Inl p
      | Inr ms \<Rightarrow> Inr (d\<lparr>metricsStats := ms\<rparr>))"

section \<open>Sequences of calls\<close>

text \<open>
  The three operations of the detector as calls, and a run of a list of calls from a
  detector: a panic stops the run.
\<close>

datatype call =
  CallGetBaseline "TimeSeries list"
| CallUpdateCurrentStats "TimeSeries list"
| CallDetectAnomalies "TimeSeries list" float64

fun call_metrics :: "call \<Rightarrow> TimeSeries list" where
  "call_metrics (CallGetBaseline metrics) = metrics"
| "call_metrics (CallUpdateCurrentStats metrics) = metrics"
| "call_metrics (CallDetectAnomalies metrics zScoreThreshold) = metrics"

fun is_GetBaseline :: "call \<Rightarrow> bool" where
  "is_GetBaseline (CallGetBaseline metrics) = True"
| "is_GetBaseline (CallUpdateCurrentStats metrics) = False"
| "is_GetBaseline (CallDetectAnomalies metrics zScoreThreshold) = False"

fun step :: "GoFmt \<Rightarrow> SimpleAnomalyDetector \<Rightarrow> call \<Rightarrow> panic + SimpleAnomalyDetector" where
  "step L d (CallGetBaseline metrics) = Inr (GetBaseline d metrics)"
| "step L d (CallUpdateCurrentStats metrics) = UpdateCurrentStats d metrics"
| "step L d (CallDetectAnomalies metrics zScoreThreshold) =
     Inr (snd (DetectAnomalies L d metrics zScoreThreshold))"

fun run :: "GoFmt \<Rightarrow> SimpleAnomalyDetector \<Rightarrow> call list \<Rightarrow> panic + SimpleAnomalyDetector" where
  "run L d [] = Inr d"
| "run L d (c # cs) = (case step L d c of Inl p \<Rightarrow> Inl p | Inr d' \<Rightarrow> run L d' cs)"

section \<open>The statistics of the specification\<close>

text \<open>
  The arithmetic mean and the population standard deviation (divisor: the number of
  samples) of a list of real numbers.
\<close>

definition arithmetic_mean :: "real list \<Rightarrow> real" where
  "arithmetic_mean xs = sum_list xs / real (length xs)"

definition population_stddev :: "real list \<Rightarrow> real" where
  "population_stddev xs =
     sqrt (sum_list (map (\<lambda>x. (x - arithmetic_mean xs)\<^sup>2) xs) / real (length xs))"

text \<open>
  A sample value is a real number when its \<open>float64\<close> is finite; a batch of time
  series is real-valued when every point of every series is.
\<close>

definition is_finite :: "float64 \<Rightarrow> bool" where
  "is_finite a = (case a of Fin x \<Rightarrow> True | PInf \<Rightarrow> False | NInf \<Rightarrow> False | NaN \<Rightarrow> False)"

definition real_valued :: "TimeSeries list \<Rightarrow> bool" where
  "real_valued metrics = list_all (\<lambda>t. list_all (\<lambda>p. is_finite (DoubleValue p)) (Points t)) metrics"



section \<open>Notions used in the proofs\<close>

text \<open>
  The mean and the standard deviation that the two inner loops of \<open>GetBaseline\<close> and
  of \<open>UpdateCurrentStats\<close> compute for the points of one series.
\<close>

definition window_stats :: "Point list \<Rightarrow> float64 \<times> float64" where
  "window_stats pts =
     (let (sum, count) =
             fold (\<lambda>point (sum, count). (f64_add sum (DoubleValue point), f64_add count (Fin 1)))
               pts (Fin 0, Fin 0);
          mean = f64_div sum count;
          sumOfSquares =
            fold (\<lambda>point sumOfSquares.
                    let deviation = f64_sub (DoubleValue point) mean
                    in f64_add sumOfSquares (f64_mul deviation deviation))
              pts (Fin 0)
      in (mean, f64_sqrt (f64_div sumOfSquares count)))"

text \<open>
  Both outer loops overwrite the entry of a metric each time a series of that metric
  with at least one point comes by: the last such series of the batch decides.
\<close>

fun last_nonempty :: "string \<Rightarrow> TimeSeries list \<Rightarrow> TimeSeries option" where
  "last_nonempty name [] = None"
| "last_nonempty name (metric # rest) =
     (case last_nonempty name rest of
        Some s \<Rightarrow> Some s
      | None \<Rightarrow> if MetricType metric = name \<and> Points metric \<noteq> [] then Some metric else None)"

text \<open>
  The z-score that \<open>DetectAnomalies\<close> computes for a point, and the anomaly it appends
  when the point is flagged.
\<close>

definition zScore_of :: "MetricStats \<Rightarrow> Point \<Rightarrow> float64" where
  "zScore_of stats point = f64_div (f64_sub (DoubleValue point) (mean stats)) (stddev stats)"

definition anomaly_of :: "GoFmt \<Rightarrow> string \<Rightarrow> MetricStats \<Rightarrow> Point \<Rightarrow> Anomaly" where
  "anomaly_of L metricType stats point =
     \<lparr>MetricName = metricType, Value = DoubleValue point, Timestamp = EndTime point,
      Message = ''Value deviates significantly from the mean (Z-score: ''
                  @ FormatF2 L (zScore_of stats point) @ '')''\<rparr>"

text \<open>
  No stored standard deviation is negative.
\<close>

definition stddevs_nonneg :: "MetricStats gomap \<Rightarrow> bool" where
  "stddevs_nonneg ms =
     (\<forall>name st. map_lookup ms name = Some st \<longrightarrow>
        f64_ge (stddev st) (Fin 0) \<and> f64_ge (currentStdDev st) (Fin 0))"

section \<open>Example inputs\<close>

definition t0 :: Timestamp where
  "t0 = \<lparr>Seconds = 0, Nanos = 0\<rparr>"

definition pt :: "real \<Rightarrow> Point" where
  "pt x = \<lparr>DoubleValue = Fin x, EndTime = t0\<rparr>"

definition series :: "string \<Rightarrow> real list \<Rightarrow> TimeSeries" where
  "series name xs = \<lparr>MetricType = name, Points = map pt xs\<rparr>"

definition fmt0 :: GoFmt where
  "fmt0 = \<lparr>TimeString = (\<lambda>t. ''t''), FormatF2 = (\<lambda>z. ''z'')\<rparr>"


definition baseline_100_10 :: SimpleAnomalyDetector where
  "baseline_100_10 =
     \<lparr>metricsStats = Some [''m'' \<mapsto> \<lparr>mean = Fin 100, stddev = Fin 10, currentMean = Fin 0, currentStdDev = Fin 0\<rparr>],
      initialised = True, zScores = None\<rparr>"

definition zero_variance_stats :: MetricStats where
  "zero_variance_stats = \<lparr>mean = Fin 5, stddev = Fin 0, currentMean = Fin 0, currentStdDev = Fin 0\<rparr>"

definition constant_baseline :: SimpleAnomalyDetector where
  "constant_baseline = GetBaseline new_detector [series ''m'' [5, 5]]"

definition example_calls :: "call list" where
  "example_calls =
     [CallGetBaseline [series ''m'' [1, 3]], CallUpdateCurrentStats [series ''m'' [5]],
      CallDetectAnomalies [series ''m'' [5]] (Fin 3)]"

definition example_final :: SimpleAnomalyDetector where
  "example_final =
     \<lparr>metricsStats = Some [''m'' \<mapsto> \<lparr>mean = Fin 2, stddev = Fin 1, currentMean = Fin 5, currentStdDev = Fin 0\<rparr>],
      initialised = True,
      zScores = Some [''m at t'' \<mapsto> Fin 3]\<rparr>"

section \<open>The inner loops on real-valued samples\<close>

lemma count_fold:
  "snd (fold (\<lambda>point (sum, count). (f64_add sum (DoubleValue point), f64_add count (Fin 1)))
          pts (s, Fin c)) = Fin (c + real (length pts))"
  by (induction pts arbitrary: s c) (simp_all add: add.assoc)

lemma count_zero_iff:
  "f64_eq (snd (fold (\<lambda>point (sum, count). (f64_add sum (DoubleValue point), f64_add count (Fin 1)))
          pts (Fin 0, Fin 0))) (Fin 0) \<longleftrightarrow> pts = []"
  by (simp add: count_fold)

lemma sum_count_fold_finite:
  "map DoubleValue pts = map Fin xs \<Longrightarrow>
   fold (\<lambda>point (sum, count). (f64_add sum (DoubleValue point), f64_add count (Fin 1)))
          pts (Fin s, Fin c) = (Fin (s + sum_list xs), Fin (c + real (length xs)))"
proof (induction pts arbitrary: xs s c)
  case Nil
  then show ?case by simp
next
  case (Cons p pts)
  then obtain x xs' where xs: "xs = x # xs'" "DoubleValue p = Fin x" "map DoubleValue pts = map Fin xs'"
    by (cases xs) auto
  show ?case using Cons.IH[OF xs(3)] xs by (simp add: add.assoc)
qed

lemma squares_fold_finite:
  "map DoubleValue pts = map Fin xs \<Longrightarrow>
   fold (\<lambda>point sumOfSquares.
                    let deviation = f64_sub (DoubleValue point) (Fin m)
                    in f64_add sumOfSquares (f64_mul deviation deviation))
              pts (Fin a) = Fin (a + sum_list (map (\<lambda>x. (x - m)\<^sup>2) xs))"
proof (induction pts arbitrary: xs a)
  case Nil
  then show ?case by simp
next
  case (Cons p pts)
  then obtain x xs' where xs: "xs = x # xs'" "DoubleValue p = Fin x" "map DoubleValue pts = map Fin xs'"
    by (cases xs) auto
  show ?case using Cons.IH[OF xs(3)] xs by (simp add: add.assoc f64_sub_def power2_eq_square)
qed

lemma window_stats_finite:
  assumes "pts \<noteq> []" and "map DoubleValue pts = map Fin xs"
  shows "window_stats pts = (Fin (arithmetic_mean xs), Fin (population_stddev xs))"
proof -
  have len: "length xs = length pts" using assms(2) by (metis length_map)
  then have pos: "0 < real (length xs)" using assms(1) by simp
  have nonneg: "0 \<le> sum_list (map (\<lambda>x. (x - arithmetic_mean xs)\<^sup>2) xs) / real (length xs)"
    by (intro divide_nonneg_nonneg sum_list_nonneg) auto
  show ?thesis
    using pos nonneg
    by (simp add: window_stats_def sum_count_fold_finite[OF assms(2)]
        squares_fold_finite[OF assms(2)] arithmetic_mean_def[symmetric] population_stddev_def)
qed

lemma population_stddev_nonneg: "0 \<le> population_stddev xs"
  unfolding population_stddev_def
  by (intro real_sqrt_ge_zero divide_nonneg_nonneg sum_list_nonneg) auto

lemma finite_points_values:
  "list_all (\<lambda>p. is_finite (DoubleValue p)) pts \<Longrightarrow> \<exists>xs. map DoubleValue pts = map Fin xs"
proof (induction pts)
  case Nil
  then show ?case by simp
next
  case (Cons p pts)
  then obtain xs where xs: "map DoubleValue pts = map Fin xs" by auto
  from Cons.prems obtain x where "DoubleValue p = Fin x"
    by (cases "DoubleValue p") (simp_all add: is_finite_def)
  then have "map DoubleValue (p # pts) = map Fin (x # xs)" using xs by simp
  then show ?case by blast
qed

lemma window_stddev_nonneg:
  assumes "pts \<noteq> []" and "list_all (\<lambda>p. is_finite (DoubleValue p)) pts"
  shows "f64_ge (snd (window_stats pts)) (Fin 0)"
proof -
  obtain xs where xs: "map DoubleValue pts = map Fin xs"
    using finite_points_values[OF assms(2)] by blast
  show ?thesis
    using window_stats_finite[OF assms(1) xs] population_stddev_nonneg[of xs]
    by (auto simp: f64_ge_def)
qed

section \<open>The loops over the metrics\<close>

lemma GetBaseline_loop_Cons:
  "GetBaseline_loop stats (metric # rest) =
     (if Points metric = [] then GetBaseline_loop stats rest
      else GetBaseline_loop
             (stats(MetricType metric \<mapsto>
                \<lparr>mean = fst (window_stats (Points metric)), stddev = snd (window_stats (Points metric)),
                 currentMean = Fin 0, currentStdDev = Fin 0\<rparr>)) rest)"
proof -
  obtain s c where sc:
    "fold (\<lambda>point (sum, count). (f64_add sum (DoubleValue point), f64_add count (Fin 1)))
       (Points metric) (Fin 0, Fin 0) = (s, c)"
    by fastforce
  have "f64_eq c (Fin 0) \<longleftrightarrow> Points metric = []"
    using count_zero_iff[of "Points metric"] sc by simp
  then show ?thesis
    using sc by (simp add: window_stats_def Let_def)
qed

lemma last_nonempty_decomp:
  assumes "Points s \<noteq> []" and "\<forall>t\<in>set after. MetricType t = MetricType s \<longrightarrow> Points t = []"
  shows "last_nonempty (MetricType s) (before @ s # after) = Some s"
proof -
  have a: "last_nonempty (MetricType s) after = None"
    using assms(2) by (induction after) (auto split: option.splits)
  have b: "last_nonempty (MetricType s) (s # after) = Some s"
    using a assms(1) by simp
  show ?thesis
    using b by (induction before) simp_all
qed

lemma last_nonempty_None:
  "(\<forall>t\<in>set metrics. MetricType t = name \<longrightarrow> Points t = []) \<Longrightarrow> last_nonempty name metrics = None"
  by (induction metrics) (auto split: option.splits)

lemma last_nonempty_Some:
  "last_nonempty name metrics = Some s \<Longrightarrow> s \<in> set metrics \<and> MetricType s = name \<and> Points s \<noteq> []"
  by (induction metrics) (auto split: option.splits if_splits)

lemma GetBaseline_loop_lookup:
  "GetBaseline_loop stats metrics name =
     (case last_nonempty name metrics of
        None \<Rightarrow> stats name
      | Some s \<Rightarrow> Some \<lparr>mean = fst (window_stats (Points s)), stddev = snd (window_stats (Points s)),
                 currentMean = Fin 0, currentStdDev = Fin 0\<rparr>)"
proof (induction metrics arbitrary: stats)
  case Nil
  then show ?case by simp
next
  case (Cons metric rest)
  show ?case
    unfolding GetBaseline_loop_Cons
    by (simp add: Cons.IH split: option.splits)
qed

lemma UpdateCurrentStats_loop_Cons:
  "UpdateCurrentStats_loop ms (metric # rest) =
     (if Points metric = [] then UpdateCurrentStats_loop ms rest
      else case ms of
             None \<Rightarrow> Inl AssignmentToEntryInNilMap
           | Some m \<Rightarrow>
               UpdateCurrentStats_loop
                 (Some (m(MetricType metric \<mapsto>
                    (map_read ms (MetricType metric))
                      \<lparr>currentMean := fst (window_stats (Points metric)),
                       currentStdDev := snd (window_stats (Points metric))\<rparr>))) rest)"
proof -
  obtain s c where sc:
    "fold (\<lambda>point (sum, count). (f64_add sum (DoubleValue point), f64_add count (Fin 1)))
       (Points metric) (Fin 0, Fin 0) = (s, c)"
    by fastforce
  have "f64_eq c (Fin 0) \<longleftrightarrow> Points metric = []"
    using count_zero_iff[of "Points metric"] sc by simp
  moreover have "window_stats (Points metric) =
      (f64_div s c,
       f64_sqrt (f64_div
         (fold (\<lambda>point sumOfSquares.
                  f64_add sumOfSquares
                    (f64_mul (f64_sub (DoubleValue point) (f64_div s c))
                       (f64_sub (DoubleValue point) (f64_div s c))))
            (Points metric) (Fin 0)) c))"
    using sc by (simp add: window_stats_def Let_def)
  ultimately show ?thesis
    using sc by (simp add: Let_def split: option.splits)
qed

lemma UpdateCurrentStats_loop_lookup:
  "UpdateCurrentStats_loop (Some m) metrics =
     Inr (Some (\<lambda>name.
       case last_nonempty name metrics of
         None \<Rightarrow> m name
       | Some s \<Rightarrow> Some ((map_read (Some m) name)
                        \<lparr>currentMean := fst (window_stats (Points s)),
                         currentStdDev := snd (window_stats (Points s))\<rparr>)))"
proof (induction metrics arbitrary: m)
  case Nil
  then show ?case by simp
next
  case (Cons metric rest)
  show ?case
    unfolding UpdateCurrentStats_loop_Cons
    by (auto simp: Cons.IH map_read_def map_lookup_def fun_eq_iff split: option.splits)
qed

lemma UpdateCurrentStats_loop_nil:
  "UpdateCurrentStats_loop None metrics = Inr ms \<Longrightarrow> ms = None"
  by (induction metrics)
     (auto simp: UpdateCurrentStats_loop_Cons simp del: UpdateCurrentStats_loop.simps(2)
           split: if_splits)

lemma last_nonempty_stddev_nonneg:
  assumes "real_valued metrics" and "last_nonempty name metrics = Some s"
  shows "f64_ge (snd (window_stats (Points s))) (Fin 0)"
proof -
  from last_nonempty_Some[OF assms(2)] have s: "s \<in> set metrics" "Points s \<noteq> []" by simp_all
  then have "list_all (\<lambda>p. is_finite (DoubleValue p)) (Points s)"
    using assms(1) by (simp add: real_valued_def list_all_iff)
  then show ?thesis using s(2) by (rule window_stddev_nonneg[rotated])
qed

section \<open>The anomalies found by DetectAnomalies\<close>



lemma DetectAnomalies_points_fst:
  "fst (DetectAnomalies_points L metricType stats thr pts (anomalies, zs)) =
     anomalies @ map (anomaly_of L metricType stats)
                   (filter (\<lambda>p. f64_gt (f64_abs (zScore_of stats p)) thr) pts)"
  by (induction pts arbitrary: anomalies zs)
     (simp_all add: Let_def zScore_of_def anomaly_of_def)

lemma DetectAnomalies_loop_fst:
  "fst (DetectAnomalies_loop L ms thr metrics (anomalies, zs)) =
     anomalies @ concat (map (\<lambda>s. case map_lookup ms (MetricType s) of
                                    None \<Rightarrow> []
                                  | Some st \<Rightarrow> map (anomaly_of L (MetricType s) st)
                                      (filter (\<lambda>p. f64_gt (f64_abs (zScore_of st p)) thr) (Points s)))
                           metrics)"
proof (induction metrics arbitrary: anomalies zs)
  case Nil
  then show ?case by simp
next
  case (Cons metric rest)
  show ?case
  proof (cases "map_lookup ms (MetricType metric)")
    case None
    then show ?thesis by (simp add: Cons.IH)
  next
    case (Some st)
    obtain as' zs' where r:
      "DetectAnomalies_points L (MetricType metric) st thr (Points metric) (anomalies, zs) = (as', zs')"
      by fastforce
    have "as' = anomalies @ map (anomaly_of L (MetricType metric) st)
                   (filter (\<lambda>p. f64_gt (f64_abs (zScore_of st p)) thr) (Points metric))"
      using DetectAnomalies_points_fst[of L "MetricType metric" st thr "Points metric" anomalies zs] r
      by simp
    then show ?thesis using Some r by (simp add: Cons.IH)
  qed
qed

lemma DetectAnomalies_anomalies:
  "initialised d \<Longrightarrow>
   fst (fst (DetectAnomalies L d metrics thr)) =
     concat (map (\<lambda>s. case map_lookup (metricsStats d) (MetricType s) of
                          None \<Rightarrow> []
                        | Some st \<Rightarrow> map (anomaly_of L (MetricType s) st)
                            (filter (\<lambda>p. f64_gt (f64_abs (zScore_of st p)) thr) (Points s)))
               metrics)"
proof -
  assume init: "initialised d"
  obtain as zs where r:
    "DetectAnomalies_loop L (metricsStats d) thr metrics ([], Map.empty) = (as, zs)"
    by fastforce
  then have "fst (fst (DetectAnomalies L d metrics thr)) = as"
    using init by (simp add: DetectAnomalies_def)
  then show ?thesis
    using DetectAnomalies_loop_fst[of L "metricsStats d" thr metrics "[]" Map.empty] r
    by simp
qed

lemma DetectAnomalies_member:
  assumes "initialised d" and "map_lookup (metricsStats d) (MetricType s) = Some st"
    and "s \<in> set metrics" and "p \<in> set (Points s)"
  shows "anomaly_of L (MetricType s) st p \<in> set (fst (fst (DetectAnomalies L d metrics thr)))
         \<longleftrightarrow> f64_gt (f64_abs (zScore_of st p)) thr"
proof
  assume "f64_gt (f64_abs (zScore_of st p)) thr"
  then show "anomaly_of L (MetricType s) st p \<in> set (fst (fst (DetectAnomalies L d metrics thr)))"
    using assms by (force simp: DetectAnomalies_anomalies)
next
  assume "anomaly_of L (MetricType s) st p \<in> set (fst (fst (DetectAnomalies L d metrics thr)))"
  then obtain s' where s': "s' \<in> set metrics"
      "anomaly_of L (MetricType s) st p \<in> set
         (case map_lookup (metricsStats d) (MetricType s') of
            None \<Rightarrow> []
          | Some st' \<Rightarrow> map (anomaly_of L (MetricType s') st')
              (filter (\<lambda>p. f64_gt (f64_abs (zScore_of st' p)) thr) (Points s')))"
    using assms(1) by (auto simp: DetectAnomalies_anomalies)
  then obtain st' where st': "map_lookup (metricsStats d) (MetricType s') = Some st'"
      "anomaly_of L (MetricType s) st p \<in> set (map (anomaly_of L (MetricType s') st')
              (filter (\<lambda>p. f64_gt (f64_abs (zScore_of st' p)) thr) (Points s')))"
    by (cases "map_lookup (metricsStats d) (MetricType s')") auto
  then obtain q where q: "q \<in> set (Points s')"
      "f64_gt (f64_abs (zScore_of st' q)) thr"
      "anomaly_of L (MetricType s') st' q = anomaly_of L (MetricType s) st p"
    by auto
  from q(3) have "MetricType s' = MetricType s" "DoubleValue q = DoubleValue p"
    by (simp_all add: anomaly_of_def)
  then have "st' = st" "zScore_of st' q = zScore_of st p"
    using st'(1) assms(2) by (simp_all add: zScore_of_def)
  then show "f64_gt (f64_abs (zScore_of st p)) thr" using q(2) by simp
qed

lemma zero_stddev_flag:
  assumes "stddev st = Fin 0" and "mean st \<noteq> NaN" and "DoubleValue p \<noteq> NaN"
  shows "f64_gt (f64_abs (zScore_of st p)) (Fin t) \<longleftrightarrow> DoubleValue p \<noteq> mean st"
  using assms
  by (cases "mean st"; cases "DoubleValue p")
     (auto simp: zScore_of_def f64_sub_def inf_of_sign_def)

lemma DetectAnomalies_state:
  "\<exists>zs. snd (DetectAnomalies L d metrics thr) = d\<lparr>zScores := zs\<rparr>"
proof (cases "initialised d")
  case True
  obtain as zs where "DetectAnomalies_loop L (metricsStats d) thr metrics ([], Map.empty) = (as, zs)"
    by fastforce
  then have "snd (DetectAnomalies L d metrics thr) = d\<lparr>zScores := Some zs\<rparr>"
    using True by (simp add: DetectAnomalies_def)
  then show ?thesis by blast
next
  case False
  then have "snd (DetectAnomalies L d metrics thr) = d\<lparr>zScores := zScores d\<rparr>"
    by (simp add: DetectAnomalies_def)
  then show ?thesis by blast
qed

lemma DetectAnomalies_metricsStats:
  "metricsStats (snd (DetectAnomalies L d metrics thr)) = metricsStats d"
  using DetectAnomalies_state[of L d metrics thr] by auto

section \<open>The flag of the detector\<close>

lemma step_initialised:
  assumes "step L d c = Inr d'" and "\<not> is_GetBaseline c"
  shows "initialised d' = initialised d"
proof (cases c)
  case (CallGetBaseline metrics)
  then show ?thesis using assms(2) by simp
next
  case (CallUpdateCurrentStats metrics)
  then show ?thesis
    using assms(1) by (auto simp: UpdateCurrentStats_def split: sum.splits)
next
  case (CallDetectAnomalies metrics thr)
  obtain zs where zs: "snd (DetectAnomalies L d metrics thr) = d\<lparr>zScores := zs\<rparr>"
    using DetectAnomalies_state by blast
  have "d' = snd (DetectAnomalies L d metrics thr)"
    using assms(1) CallDetectAnomalies by simp
  then show ?thesis by (simp add: zs)
qed

lemma run_initialised:
  "run L d calls = Inr d' \<Longrightarrow> \<forall>c\<in>set calls. \<not> is_GetBaseline c \<Longrightarrow>
   initialised d' = initialised d"
proof (induction calls arbitrary: d)
  case Nil
  then show ?case by simp
next
  case (Cons c calls)
  from Cons.prems(1) obtain d1 where d1: "step L d c = Inr d1" "run L d1 calls = Inr d'"
    by (auto split: sum.splits)
  have "initialised d1 = initialised d"
    using step_initialised[OF d1(1)] Cons.prems(2) by simp
  then show ?case using Cons.IH[OF d1(2)] Cons.prems(2) by simp
qed

section \<open>Preservation of the invariant\<close>

lemma stddevs_nonneg_GetBaseline:
  assumes "real_valued metrics"
  shows "stddevs_nonneg (metricsStats (GetBaseline d metrics))"
  unfolding stddevs_nonneg_def
proof (intro allI impI)
  fix name st
  assume "map_lookup (metricsStats (GetBaseline d metrics)) name = Some st"
  then have st: "GetBaseline_loop Map.empty metrics name = Some st"
    by (simp add: GetBaseline_def map_lookup_def)
  then obtain s where s: "last_nonempty name metrics = Some s"
    and st_eq: "st = \<lparr>mean = fst (window_stats (Points s)), stddev = snd (window_stats (Points s)),
                 currentMean = Fin 0, currentStdDev = Fin 0\<rparr>"
    unfolding GetBaseline_loop_lookup by (cases "last_nonempty name metrics") auto
  show "f64_ge (stddev st) (Fin 0) \<and> f64_ge (currentStdDev st) (Fin 0)"
    using last_nonempty_stddev_nonneg[OF assms s] st_eq by (simp add: f64_ge_def)
qed

lemma stddevs_nonneg_UpdateCurrentStats:
  assumes "stddevs_nonneg (metricsStats d)" and "real_valued metrics"
    and "UpdateCurrentStats d metrics = Inr d'"
  shows "stddevs_nonneg (metricsStats d')"
proof (cases "metricsStats d")
  case None
  then have "metricsStats d' = None"
    using assms(3) UpdateCurrentStats_loop_nil[of metrics]
    by (auto simp: UpdateCurrentStats_def split: sum.splits)
  then show ?thesis by (simp add: stddevs_nonneg_def map_lookup_def)
next
  case (Some m)
  have d': "metricsStats d' = Some (\<lambda>name.
       case last_nonempty name metrics of
         None \<Rightarrow> m name
       | Some s \<Rightarrow> Some ((map_read (Some m) name)
                        \<lparr>currentMean := fst (window_stats (Points s)),
                         currentStdDev := snd (window_stats (Points s))\<rparr>))"
    using assms(3) Some by (auto simp: UpdateCurrentStats_def UpdateCurrentStats_loop_lookup)
  show ?thesis
    unfolding stddevs_nonneg_def
  proof (intro allI impI)
    fix name st
    assume look: "map_lookup (metricsStats d') name = Some st"
    show "f64_ge (stddev st) (Fin 0) \<and> f64_ge (currentStdDev st) (Fin 0)"
    proof (cases "last_nonempty name metrics")
      case None
      then have "map_lookup (metricsStats d) name = Some st"
        using look d' Some by (simp add: map_lookup_def)
      then show ?thesis using assms(1) by (simp add: stddevs_nonneg_def)
    next
      case (Some s)
      then have st: "st = (map_read (metricsStats d) name)
                        \<lparr>currentMean := fst (window_stats (Points s)),
                         currentStdDev := snd (window_stats (Points s))\<rparr>"
        using look d' \<open>metricsStats d = Some m\<close> by (simp add: map_lookup_def)
      have old: "f64_ge (stddev (map_read (metricsStats d) name)) (Fin 0)"
        using assms(1)
        by (cases "map_lookup (metricsStats d) name")
           (simp_all add: map_read_def zero_stats_def f64_ge_def stddevs_nonneg_def)
      show ?thesis
        using old last_nonempty_stddev_nonneg[OF assms(2) Some] st by simp
    qed
  qed
qed

lemma stddevs_nonneg_run:
  assumes "stddevs_nonneg (metricsStats d0)" and "\<forall>c\<in>set calls. real_valued (call_metrics c)"
    and "run L d0 calls = Inr d"
  shows "stddevs_nonneg (metricsStats d)"
  using assms
proof (induction calls arbitrary: d0)
  case Nil
  then show ?case by simp
next
  case (Cons c calls)
  from Cons.prems(3) obtain d1 where d1: "step L d0 c = Inr d1" "run L d1 calls = Inr d"
    by (auto split: sum.splits)
  have rv: "real_valued (call_metrics c)" using Cons.prems(2) by simp
  have "stddevs_nonneg (metricsStats d1)"
  proof (cases c)
    case (CallGetBaseline metrics)
    then show ?thesis using d1(1) rv stddevs_nonneg_GetBaseline by auto
  next
    case (CallUpdateCurrentStats metrics)
    then show ?thesis
      using d1(1) rv stddevs_nonneg_UpdateCurrentStats[OF Cons.prems(1)] by auto
  next
    case (CallDetectAnomalies metrics thr)
    then show ?thesis
      using d1(1) Cons.prems(1) by (auto simp: DetectAnomalies_metricsStats)
  qed
  then show ?case using Cons.IH[OF _ _ d1(2)] Cons.prems(2) by simp
qed

section \<open>The example detectors\<close>

lemma constant_baseline_eq:
  "constant_baseline =
     \<lparr>metricsStats = Some [''m'' \<mapsto> \<lparr>mean = Fin 5, stddev = Fin 0, currentMean = Fin 0, currentStdDev = Fin 0\<rparr>],
      initialised = True, zScores = None\<rparr>"
  by (simp add: constant_baseline_def GetBaseline_def new_detector_def series_def pt_def
      Let_def f64_sub_def)

lemma constant_baseline_lookup:
  "map_lookup (metricsStats constant_baseline) ''m'' = Some zero_variance_stats"
  by (simp add: constant_baseline_eq map_lookup_def zero_variance_stats_def)

section \<open>The claims\<close>

subsection \<open>C1: a zero-variance baseline\<close>

text \<open>
  C1. For a metric whose baseline standard deviation is zero, \<open>DetectAnomalies\<close> flags
  a sample exactly when its value differs from the baseline mean, whatever the finite
  threshold: \<open>(value - mean) / 0\<close> is an infinity when the value differs and NaN when
  it is equal, and \<open>|NaN| > threshold\<close> is false. The sample value and the mean are
  numbers (not NaN).
\<close>

theorem zero_variance_flags:
  assumes "initialised d" and "map_lookup (metricsStats d) (MetricType s) = Some st"
    and "stddev st = Fin 0" and "mean st \<noteq> NaN"
    and "s \<in> set metrics" and "p \<in> set (Points s)" and "DoubleValue p \<noteq> NaN"
  shows "anomaly_of L (MetricType s) st p \<in> set (fst (fst (DetectAnomalies L d metrics (Fin t))))
         \<longleftrightarrow> DoubleValue p \<noteq> mean st"
  using DetectAnomalies_member[OF assms(1,2,5,6)] zero_stddev_flag[OF assms(3,4,7)]
  by simp

theorem zero_variance_flags_witness:
  "anomaly_of fmt0 ''m'' zero_variance_stats (pt 6)
     \<in> set (fst (fst (DetectAnomalies fmt0 constant_baseline [series ''m'' [5, 6]] (Fin 3)))) \<and>
   anomaly_of fmt0 ''m'' zero_variance_stats (pt 5)
     \<notin> set (fst (fst (DetectAnomalies fmt0 constant_baseline [series ''m'' [5, 6]] (Fin 3))))"
proof -
  have h1: "initialised constant_baseline" by (simp add: constant_baseline_eq)
  have h2: "map_lookup (metricsStats constant_baseline) (MetricType (series ''m'' [5, 6])) =
      Some zero_variance_stats"
    by (simp add: constant_baseline_lookup series_def)
  have h3: "stddev zero_variance_stats = Fin 0" by (simp add: zero_variance_stats_def)
  have h4: "mean zero_variance_stats \<noteq> NaN" by (simp add: zero_variance_stats_def)
  have h5: "series ''m'' [5, 6] \<in> set [series ''m'' [5, 6]]" by simp
  have h6: "pt 6 \<in> set (Points (series ''m'' [5, 6]))" by (simp add: series_def)
  have h6': "pt 5 \<in> set (Points (series ''m'' [5, 6]))" by (simp add: series_def)
  have h7: "DoubleValue (pt 6) \<noteq> NaN" "DoubleValue (pt 5) \<noteq> NaN" by (simp_all add: pt_def)
  have n: "MetricType (series ''m'' [5, 6]) = ''m''" by (simp add: series_def)
  show ?thesis
    using zero_variance_flags[OF h1 h2 h3 h4 h5 h6 h7(1), of fmt0 3]
      zero_variance_flags[OF h1 h2 h3 h4 h5 h6' h7(2), of fmt0 3]
    by (simp add: n pt_def zero_variance_stats_def)
qed

subsection \<open>C2: the baseline is the mean and the population standard deviation\<close>



subsection \<open>C3: detection before the baseline\<close>

text \<open>
  C3. On a detector whose \<open>initialised\<close> flag is not set, \<open>DetectAnomalies\<close> returns
  no anomaly and the error "baseline not initialised", and leaves the detector as it
  was, for every input and threshold. The flag is not set on a detector reached from a
  new one by calls none of which is \<open>GetBaseline\<close>.
\<close>

theorem DetectAnomalies_not_initialised:
  "(\<not> initialised d \<longrightarrow>
      DetectAnomalies L d metrics zScoreThreshold = (([], Some BaselineNotInitialised), d)) \<and>
   (run L new_detector calls = Inr d \<and> (\<forall>c\<in>set calls. \<not> is_GetBaseline c) \<longrightarrow>
      DetectAnomalies L d metrics zScoreThreshold = (([], Some BaselineNotInitialised), d))"
proof -
  have flag: "DetectAnomalies L d metrics zScoreThreshold = (([], Some BaselineNotInitialised), d)"
    if "\<not> initialised d"
    using that by (simp add: DetectAnomalies_def)
  have "\<not> initialised d"
    if "run L new_detector calls = Inr d" and "\<forall>c\<in>set calls. \<not> is_GetBaseline c"
    using run_initialised[OF that] by (simp add: new_detector_def)
  then show ?thesis using flag by blast
qed

theorem DetectAnomalies_not_initialised_witness:
  "\<not> initialised new_detector \<and>
   run fmt0 new_detector [CallUpdateCurrentStats [series ''m'' []]] = Inr new_detector \<and>
   DetectAnomalies fmt0 new_detector [series ''m'' [6]] (Fin 3) =
     (([], Some BaselineNotInitialised), new_detector)"
proof -
  have h: "\<not> initialised new_detector" by (simp add: new_detector_def)
  have r: "run fmt0 new_detector [CallUpdateCurrentStats [series ''m'' []]] = Inr new_detector"
    by (simp add: UpdateCurrentStats_def new_detector_def series_def)
  have n: "\<forall>c\<in>set [CallUpdateCurrentStats [series ''m'' []]]. \<not> is_GetBaseline c" by simp
  show ?thesis
    using h r n
      DetectAnomalies_not_initialised[of new_detector fmt0 "[series ''m'' [6]]" "Fin 3"
        "[CallUpdateCurrentStats [series ''m'' []]]"]
    by simp
qed

subsection \<open>C4: the threshold test\<close>




subsection \<open>C5: metrics without data\<close>

text \<open>
  C5. \<open>GetBaseline\<close> always sets \<open>initialised\<close>; a metric all of whose series are
  empty gets no entry in the map; when every series is empty the map is allocated and
  empty. The function has no error result and no panic.
\<close>

theorem GetBaseline_skips_empty:
  "initialised (GetBaseline d metrics) \<and>
   ((\<forall>t\<in>set metrics. MetricType t = name \<longrightarrow> Points t = []) \<longrightarrow>
      map_lookup (metricsStats (GetBaseline d metrics)) name = None) \<and>
   ((\<forall>t\<in>set metrics. Points t = []) \<longrightarrow>
      metricsStats (GetBaseline d metrics) = Some Map.empty)"
proof (intro conjI impI)
  show "initialised (GetBaseline d metrics)" by (simp add: GetBaseline_def)
next
  assume "\<forall>t\<in>set metrics. MetricType t = name \<longrightarrow> Points t = []"
  then have "last_nonempty name metrics = None" by (rule last_nonempty_None)
  then show "map_lookup (metricsStats (GetBaseline d metrics)) name = None"
    by (simp add: GetBaseline_def map_lookup_def GetBaseline_loop_lookup)
next
  assume a: "\<forall>t\<in>set metrics. Points t = []"
  have "GetBaseline_loop Map.empty metrics name = None" for name
    using last_nonempty_None[of metrics name] a by (simp add: GetBaseline_loop_lookup)
  then show "metricsStats (GetBaseline d metrics) = Some Map.empty"
    by (simp add: GetBaseline_def fun_eq_iff)
qed

theorem GetBaseline_skips_empty_witness:
  "initialised (GetBaseline new_detector [series ''m'' [], series ''k'' []]) \<and>
   map_lookup (metricsStats (GetBaseline new_detector [series ''m'' [], series ''k'' []])) ''m'' = None \<and>
   metricsStats (GetBaseline new_detector [series ''m'' [], series ''k'' []]) = Some Map.empty"
  using GetBaseline_skips_empty[of new_detector "[series ''m'' [], series ''k'' []]" "''m''"]
  by (simp add: series_def map_lookup_def)

subsection \<open>C6: an update without samples\<close>

text \<open>
  C6. When a metric has an entry and every series of that metric in the batch is empty,
  \<open>UpdateCurrentStats\<close> returns normally and the entry of the metric, its four fields,
  is what it was.
\<close>

theorem UpdateCurrentStats_no_samples:
  assumes "map_lookup (metricsStats d) name = Some st"
    and "\<forall>t\<in>set metrics. MetricType t = name \<longrightarrow> Points t = []"
  shows "\<exists>d'. UpdateCurrentStats d metrics = Inr d' \<and> map_lookup (metricsStats d') name = Some st"
proof -
  from assms(1) obtain m where m: "metricsStats d = Some m" "m name = Some st"
    by (cases "metricsStats d") (simp_all add: map_lookup_def)
  have "last_nonempty name metrics = None" using assms(2) by (rule last_nonempty_None)
  then show ?thesis
    using m by (simp add: UpdateCurrentStats_def UpdateCurrentStats_loop_lookup map_lookup_def)
qed

theorem UpdateCurrentStats_no_samples_witness:
  "\<exists>d'. UpdateCurrentStats baseline_100_10 [series ''m'' [], series ''k'' [1, 3]] = Inr d' \<and>
        map_lookup (metricsStats d') ''m'' =
          Some \<lparr>mean = Fin 100, stddev = Fin 10, currentMean = Fin 0, currentStdDev = Fin 0\<rparr>"
proof -
  have h1: "map_lookup (metricsStats baseline_100_10) ''m'' =
      Some \<lparr>mean = Fin 100, stddev = Fin 10, currentMean = Fin 0, currentStdDev = Fin 0\<rparr>"
    by (simp add: baseline_100_10_def map_lookup_def)
  have h2: "\<forall>t\<in>set [series ''m'' [], series ''k'' [1, 3]]. MetricType t = ''m'' \<longrightarrow> Points t = []"
    by (simp add: series_def)
  show ?thesis using UpdateCurrentStats_no_samples[OF h1 h2] .
qed

subsection \<open>C7: an update for an unknown metric\<close>



subsection \<open>C8: baseline and update on the same samples\<close>

text \<open>
  C8. \<open>GetBaseline\<close> on a batch followed by \<open>UpdateCurrentStats\<close> on the same batch
  returns normally, and for the metric of a series \<open>s\<close> with real-valued points (the
  last of its metric with points) the current mean equals the baseline mean and the
  current standard deviation equals the baseline one, both as values and under the
  \<open>==\<close> of Go.
\<close>

theorem baseline_then_update_same_stats:
  assumes "metrics = before @ s # after" and "Points s \<noteq> []"
    and "\<forall>t\<in>set after. MetricType t = MetricType s \<longrightarrow> Points t = []"
    and "map DoubleValue (Points s) = map Fin xs"
  shows "\<exists>d' st. UpdateCurrentStats (GetBaseline d metrics) metrics = Inr d' \<and>
           map_lookup (metricsStats d') (MetricType s) = Some st \<and>
           f64_eq (currentMean st) (mean st) \<and> f64_eq (currentStdDev st) (stddev st) \<and>
           currentMean st = mean st \<and> currentStdDev st = stddev st"
proof -
  have l: "last_nonempty (MetricType s) metrics = Some s"
    unfolding assms(1) using assms(2,3) by (rule last_nonempty_decomp)
  show ?thesis
    using l
    by (simp add: UpdateCurrentStats_def UpdateCurrentStats_loop_lookup map_lookup_def
        map_read_def GetBaseline_def GetBaseline_loop_lookup window_stats_finite[OF assms(2,4)])
qed

theorem baseline_then_update_same_stats_witness:
  "\<exists>d' st. UpdateCurrentStats (GetBaseline new_detector [series ''m'' [1, 3]]) [series ''m'' [1, 3]] = Inr d' \<and>
        map_lookup (metricsStats d') ''m'' = Some st \<and>
        f64_eq (currentMean st) (mean st) \<and> f64_eq (currentStdDev st) (stddev st) \<and>
        currentMean st = mean st \<and> currentStdDev st = stddev st"
proof -
  have h1: "[series ''m'' [1, 3]] = [] @ series ''m'' [1, 3] # []" by simp
  have h2: "Points (series ''m'' [1, 3]) \<noteq> []" by (simp add: series_def)
  have h3: "\<forall>t\<in>set []. MetricType t = MetricType (series ''m'' [1, 3]) \<longrightarrow> Points t = []"
    by simp
  have h4: "map DoubleValue (Points (series ''m'' [1, 3])) = map Fin [1, 3]"
    by (simp add: series_def pt_def)
  have n: "MetricType (series ''m'' [1, 3]) = ''m''" by (simp add: series_def)
  show ?thesis
    using baseline_then_update_same_stats[OF h1 h2 h3 h4, of new_detector] unfolding n .
qed

subsection \<open>C9: no negative standard deviation\<close>

text \<open>
  C9. After any run of calls of \<open>GetBaseline\<close>, \<open>UpdateCurrentStats\<close> and
  \<open>DetectAnomalies\<close> on real-valued samples, started from a new detector, every entry
  of the map has \<open>stddev >= 0\<close> and \<open>currentStdDev >= 0\<close>.
\<close>

theorem stored_stddev_nonneg:
  assumes "run L new_detector calls = Inr d"
    and "\<forall>c\<in>set calls. real_valued (call_metrics c)"
    and "map_lookup (metricsStats d) name = Some st"
  shows "f64_ge (stddev st) (Fin 0) \<and> f64_ge (currentStdDev st) (Fin 0)"
proof -
  have "stddevs_nonneg (metricsStats new_detector)"
    by (simp add: stddevs_nonneg_def new_detector_def map_lookup_def)
  then have "stddevs_nonneg (metricsStats d)"
    using stddevs_nonneg_run assms(1,2) by blast
  then show ?thesis using assms(3) by (simp add: stddevs_nonneg_def)
qed

theorem stored_stddev_nonneg_witness:
  "run fmt0 new_detector example_calls = Inr example_final \<and>
   map_lookup (metricsStats example_final) ''m'' =
     Some \<lparr>mean = Fin 2, stddev = Fin 1, currentMean = Fin 5, currentStdDev = Fin 0\<rparr> \<and>
   f64_ge (stddev \<lparr>mean = Fin 2, stddev = Fin 1, currentMean = Fin 5, currentStdDev = Fin 0\<rparr>) (Fin 0) \<and>
   f64_ge (currentStdDev \<lparr>mean = Fin 2, stddev = Fin 1, currentMean = Fin 5, currentStdDev = Fin 0\<rparr>) (Fin 0)"
proof -
  have h1: "run fmt0 new_detector example_calls = Inr example_final"
    by (simp add: example_calls_def example_final_def GetBaseline_def UpdateCurrentStats_def
        DetectAnomalies_def new_detector_def series_def pt_def fmt0_def Let_def f64_sub_def
        map_read_def map_lookup_def)
  have h2: "\<forall>c\<in>set example_calls. real_valued (call_metrics c)"
    by (simp add: example_calls_def real_valued_def series_def pt_def is_finite_def)
  have h3: "map_lookup (metricsStats example_final) ''m'' =
      Some \<lparr>mean = Fin 2, stddev = Fin 1, currentMean = Fin 5, currentStdDev = Fin 0\<rparr>"
    by (simp add: example_final_def map_lookup_def)
  show ?thesis using h1 h3 stored_stddev_nonneg[OF h1 h2 h3] by simp
qed

subsection \<open>C10: DetectAnomalies only replaces the z-score report\<close>

text \<open>
  C10. \<open>DetectAnomalies\<close> changes neither \<open>metricsStats\<close> nor \<open>initialised\<close>: the
  detector after the call is the one before with another \<open>zScores\<close>, and on an
  initialised detector the new \<open>zScores\<close> does not depend on the old one.
\<close>

theorem DetectAnomalies_frame:
  "metricsStats (snd (DetectAnomalies L d metrics zScoreThreshold)) = metricsStats d \<and>
   initialised (snd (DetectAnomalies L d metrics zScoreThreshold)) = initialised d \<and>
   (\<exists>zs. snd (DetectAnomalies L d metrics zScoreThreshold) = d\<lparr>zScores := zs\<rparr>) \<and>
   (initialised d \<longrightarrow>
      snd (DetectAnomalies L (d\<lparr>zScores := old\<rparr>) metrics zScoreThreshold) =
      snd (DetectAnomalies L d metrics zScoreThreshold))"
proof (intro conjI impI)
  obtain zs where zs: "snd (DetectAnomalies L d metrics zScoreThreshold) = d\<lparr>zScores := zs\<rparr>"
    using DetectAnomalies_state by blast
  show "metricsStats (snd (DetectAnomalies L d metrics zScoreThreshold)) = metricsStats d"
    by (simp add: zs)
  show "initialised (snd (DetectAnomalies L d metrics zScoreThreshold)) = initialised d"
    by (simp add: zs)
  show "\<exists>zs. snd (DetectAnomalies L d metrics zScoreThreshold) = d\<lparr>zScores := zs\<rparr>"
    using zs by blast
next
  assume "initialised d"
  then show "snd (DetectAnomalies L (d\<lparr>zScores := old\<rparr>) metrics zScoreThreshold) =
      snd (DetectAnomalies L d metrics zScoreThreshold)"
    by (simp add: DetectAnomalies_def split: prod.splits)
qed

theorem DetectAnomalies_frame_witness:
  "metricsStats (snd (DetectAnomalies fmt0 baseline_100_10 [series ''m'' [131]] (Fin 3))) =
     metricsStats baseline_100_10 \<and>
   initialised (snd (DetectAnomalies fmt0 baseline_100_10 [series ''m'' [131]] (Fin 3))) \<and>
   snd (DetectAnomalies fmt0 (baseline_100_10\<lparr>zScores := Some Map.empty\<rparr>) [series ''m'' [131]] (Fin 3)) =
     snd (DetectAnomalies fmt0 baseline_100_10 [series ''m'' [131]] (Fin 3))"
proof -
  have h: "initialised baseline_100_10" by (simp add: baseline_100_10_def)
  show ?thesis
    using h DetectAnomalies_frame[of fmt0 baseline_100_10 "[series ''m'' [131]]" "Fin 3" "Some Map.empty"]
    by simp
qed

end
